theory Spec2Isabelle
  imports Main
begin

section \<open>The data model of the field layer\<close>

text \<open>
  The cell locations that \<^verbatim>\<open>src/field/vecops.cxx\<close> names. \<^verbatim>\<open>CELL_DEFAULT\<close> stands for
  "no output location given" and \<^verbatim>\<open>CELL_VSHIFT\<close> for the staggering of a whole vector.
\<close>

datatype CELL_LOC =
  CELL_DEFAULT | CELL_CENTRE | CELL_XLOW | CELL_YLOW | CELL_ZLOW | CELL_VSHIFT

text \<open>
  The differencing methods. The enum is declared in \<^verbatim>\<open>bout_types.hxx\<close>, which is not
  among the sources; \<^verbatim>\<open>DIFF_DEFAULT\<close> is the only value the operators name, every other
  value is \<open>DIFF_OTHER n\<close>.
\<close>

datatype DIFF_METHOD = DIFF_DEFAULT | DIFF_OTHER nat

text \<open>
  A field (\<^verbatim>\<open>Field2D\<close> or \<^verbatim>\<open>Field3D\<close>) is a value of the type variable \<open>'f\<close>. The
  arithmetic operators of the field classes are not among the sources: they are the
  operations \<open>+\<close>, \<open>-\<close>, \<open>*\<close>, \<open>/\<close> of the syntactic type classes, about which
  nothing is assumed (no associativity, no commutativity, no unit), so that every
  theorem below also holds for floating-point fields. A \<^verbatim>\<open>BoutReal\<close> literal used as
  a field (\<^verbatim>\<open>1./...\<close>, \<^verbatim>\<open>result.y = 0.0\<close>) is the constant \<open>1\<close> or \<open>0\<close> of \<open>'f\<close>.
  A compound assignment \<^verbatim>\<open>r += e\<close> is the assignment of \<open>r + e\<close> to \<open>r\<close>.

  \<^verbatim>\<open>Vector2D\<close> and \<^verbatim>\<open>Vector3D\<close> carry three components and the flag \<^verbatim>\<open>covariant\<close>.
\<close>

record 'f Vector =
  x :: 'f
  y :: 'f
  z :: 'f
  covariant :: bool

type_synonym 'f Vector2D = "'f Vector"
type_synonym 'f Vector3D = "'f Vector"

text \<open>
  The members of \<^verbatim>\<open>Coordinates\<close> that the operators read (the class is declared in
  \<^verbatim>\<open>coordinates.hxx\<close>, not among the sources).
\<close>

record 'f Coordinates =
  J :: 'f
  Bxy :: 'f
  g_12 :: 'f
  g_23 :: 'f
  ShiftTorsion :: 'f
  G1_11 :: 'f
  G1_22 :: 'f
  G1_33 :: 'f
  G1_12 :: 'f
  G1_13 :: 'f
  G2_11 :: 'f
  G2_22 :: 'f
  G2_33 :: 'f
  G2_12 :: 'f
  G2_23 :: 'f
  G3_11 :: 'f
  G3_22 :: 'f
  G3_33 :: 'f
  G3_13 :: 'f
  G3_23 :: 'f

text \<open>
  The global \<^verbatim>\<open>mesh\<close> as the operators see it: the object that
  \<^verbatim>\<open>mesh->coordinates()\<close> points to, and the flag \<^verbatim>\<open>mesh->ShiftXderivs\<close>.
  (\<^verbatim>\<open>Mesh::coordinates\<close> itself is embedded in the section on \<^verbatim>\<open>mesh.hxx\<close>.)
\<close>

record 'f global_mesh =
  coordinates_object :: "'f Coordinates"
  ShiftXderivs :: bool

text \<open>
  The functions that \<^verbatim>\<open>vecops.cxx\<close> calls and that are defined outside the sources are
  parameters, collected in one record: the differencing functions of \<^verbatim>\<open>derivs.hxx\<close>
  (suffix \<open>F2\<close> for the \<^verbatim>\<open>Field2D\<close> overload, which takes no location, and \<open>F3\<close> for
  the overload with an output location; the upwind functions \<^verbatim>\<open>VDDX\<close>, \<^verbatim>\<open>VDDY\<close>,
  \<^verbatim>\<open>VDDZ\<close> have one overload for two \<^verbatim>\<open>Field2D\<close> and one for every other pair of
  fields), \<^verbatim>\<open>Field3D::getLocation\<close>, the default constructors of the vector classes
  and their in-place conversions \<^verbatim>\<open>toContravariant\<close> and \<^verbatim>\<open>toCovariant\<close>, which map the
  object before the call to the object after it. The differencing functions take their
  operands by const reference and return a new field.
\<close>

record 'f extern =
  getLocation :: "'f \<Rightarrow> CELL_LOC"
  DDX_F2 :: "'f \<Rightarrow> 'f"
  DDY_F2 :: "'f \<Rightarrow> 'f"
  DDZ_F2 :: "'f \<Rightarrow> 'f"
  DDX_F3 :: "'f \<Rightarrow> CELL_LOC \<Rightarrow> 'f"
  DDY_F3 :: "'f \<Rightarrow> CELL_LOC \<Rightarrow> 'f"
  DDZ_F3 :: "'f \<Rightarrow> CELL_LOC \<Rightarrow> 'f"
  FDDX_F2 :: "'f \<Rightarrow> 'f \<Rightarrow> 'f"
  FDDY_F2 :: "'f \<Rightarrow> 'f \<Rightarrow> 'f"
  FDDZ_F2 :: "'f \<Rightarrow> 'f \<Rightarrow> 'f"
  FDDX_F3 :: "'f \<Rightarrow> 'f \<Rightarrow> DIFF_METHOD \<Rightarrow> CELL_LOC \<Rightarrow> 'f"
  FDDY_F3 :: "'f \<Rightarrow> 'f \<Rightarrow> DIFF_METHOD \<Rightarrow> CELL_LOC \<Rightarrow> 'f"
  FDDZ_F3 :: "'f \<Rightarrow> 'f \<Rightarrow> DIFF_METHOD \<Rightarrow> CELL_LOC \<Rightarrow> 'f"
  VDDX_F2 :: "'f \<Rightarrow> 'f \<Rightarrow> 'f"
  VDDY_F2 :: "'f \<Rightarrow> 'f \<Rightarrow> 'f"
  VDDZ_F2 :: "'f \<Rightarrow> 'f \<Rightarrow> 'f"
  VDDX_F3 :: "'f \<Rightarrow> 'f \<Rightarrow> 'f"
  VDDY_F3 :: "'f \<Rightarrow> 'f \<Rightarrow> 'f"
  VDDZ_F3 :: "'f \<Rightarrow> 'f \<Rightarrow> 'f"
  Vector2D_new :: "'f Vector2D"
  Vector3D_new :: "'f Vector3D"
  Vector2D_toContravariant :: "'f Vector2D \<Rightarrow> 'f Vector2D"
  Vector3D_toContravariant :: "'f Vector3D \<Rightarrow> 'f Vector3D"
  Vector2D_toCovariant :: "'f Vector2D \<Rightarrow> 'f Vector2D"
  Vector3D_toCovariant :: "'f Vector3D \<Rightarrow> 'f Vector3D"

section \<open>The operators of vecops.cxx\<close>

text \<open>
  Every operator takes its field and vector operands by const reference. Its model
  returns the value of the call together with the operands as they are when the call
  returns: a statement that assigns to a variable rebinds that variable's name, so an
  operator that changed an operand would return the changed operand. Output locations
  and methods are passed by value.
\<close>

subsection \<open>Gradient operators\<close>

definition Grad_F2 :: "'f extern \<Rightarrow> 'f \<Rightarrow> CELL_LOC \<Rightarrow> 'f Vector2D \<times> 'f" where
  "Grad_F2 E f outloc =
    (let result = Vector2D_new E;
         result = result\<lparr>x := DDX_F2 E f\<rparr>;
         result = result\<lparr>y := DDY_F2 E f\<rparr>;
         result = result\<lparr>z := DDZ_F2 E f\<rparr>;
         result = result\<lparr>covariant := True\<rparr>
     in (result, f))"

definition Grad_F3 ::
  "'f extern \<Rightarrow> 'f \<Rightarrow> CELL_LOC \<Rightarrow> CELL_LOC \<Rightarrow> CELL_LOC \<Rightarrow> 'f Vector3D \<times> 'f" where
  "Grad_F3 E f outloc_x outloc_y outloc_z =
    (let result = Vector3D_new E;
         outloc_x = (if outloc_x = CELL_DEFAULT then getLocation E f else outloc_x);
         outloc_y = (if outloc_y = CELL_DEFAULT then getLocation E f else outloc_y);
         outloc_z = (if outloc_z = CELL_DEFAULT then getLocation E f else outloc_z);
         result = result\<lparr>x := DDX_F3 E f outloc_x\<rparr>;
         result = result\<lparr>y := DDY_F3 E f outloc_y\<rparr>;
         result = result\<lparr>z := DDZ_F3 E f outloc_z\<rparr>;
         result = result\<lparr>covariant := True\<rparr>
     in (result, f))"

definition Grad_F3_loc :: "'f extern \<Rightarrow> 'f \<Rightarrow> CELL_LOC \<Rightarrow> 'f Vector3D \<times> 'f" where
  "Grad_F3_loc E f outloc =
    (if outloc = CELL_VSHIFT then Grad_F3 E f CELL_XLOW CELL_YLOW CELL_ZLOW
     else Grad_F3 E f outloc outloc outloc)"

definition Grad_perp ::
  "('f::{one,zero,minus,times,inverse}) extern \<Rightarrow> 'f global_mesh \<Rightarrow> 'f \<Rightarrow>
     CELL_LOC \<Rightarrow> CELL_LOC \<Rightarrow> CELL_LOC \<Rightarrow> 'f Vector3D \<times> 'f" where
  "Grad_perp E mesh f outloc_x outloc_y outloc_z =
    (let result = Vector3D_new E;
         metric = coordinates_object mesh;
         outloc_x = (if outloc_x = CELL_DEFAULT then getLocation E f else outloc_x);
         outloc_z = (if outloc_z = CELL_DEFAULT then getLocation E f else outloc_z);
         parcoef = 1 / (J metric * Bxy metric);
         parcoef = parcoef * parcoef;
         result = result\<lparr>x := DDX_F3 E f outloc_x - (parcoef * g_12 metric) * DDY_F3 E f outloc_x\<rparr>;
         result = result\<lparr>y := 0\<rparr>;
         result = result\<lparr>z := DDZ_F3 E f outloc_z - (parcoef * g_23 metric) * DDY_F3 E f outloc_z\<rparr>;
         result = result\<lparr>covariant := True\<rparr>
     in (result, f))"

subsection \<open>Divergence operators\<close>

definition Div_V2 ::
  "('f::{plus,times,inverse}) extern \<Rightarrow> 'f global_mesh \<Rightarrow> 'f Vector2D \<Rightarrow> CELL_LOC \<Rightarrow>
     'f \<times> 'f Vector2D" where
  "Div_V2 E mesh v outloc =
    (let metric = coordinates_object mesh;
         vcn = v;
         vcn = Vector2D_toContravariant E vcn;
         result = DDX_F2 E (J metric * x vcn);
         result = result + DDY_F2 E (J metric * y vcn);
         result = result + DDZ_F2 E (J metric * z vcn);
         result = result / J metric
     in (result, v))"

definition Div_V3 ::
  "('f::{plus,times,inverse}) extern \<Rightarrow> 'f global_mesh \<Rightarrow> 'f Vector3D \<Rightarrow> CELL_LOC \<Rightarrow>
     'f \<times> 'f Vector3D" where
  "Div_V3 E mesh v outloc =
    (let metric = coordinates_object mesh;
         outloc = (if outloc = CELL_DEFAULT then CELL_CENTRE else outloc);
         vcn = v;
         vcn = Vector3D_toContravariant E vcn;
         result = DDX_F3 E (J metric * x vcn) outloc;
         result = result + DDY_F3 E (J metric * y vcn) outloc;
         result = result + DDZ_F3 E (J metric * z vcn) outloc;
         result = result / J metric
     in (result, v))"

subsection \<open>Divergence operators for flux methods\<close>

definition Div_V2_F2 ::
  "('f::{plus,times,inverse}) extern \<Rightarrow> 'f global_mesh \<Rightarrow> 'f Vector2D \<Rightarrow> 'f \<Rightarrow>
     'f \<times> 'f Vector2D \<times> 'f" where
  "Div_V2_F2 E mesh v f =
    (let metric = coordinates_object mesh;
         vcn = v;
         vcn = Vector2D_toContravariant E vcn;
         result = FDDX_F2 E (J metric * x vcn) f;
         result = result + FDDY_F2 E (J metric * y vcn) f;
         result = result + FDDZ_F2 E (J metric * z vcn) f;
         result = result / J metric
     in (result, v, f))"

definition Div_V3_F3 ::
  "('f::{plus,times,inverse}) extern \<Rightarrow> 'f global_mesh \<Rightarrow> 'f Vector3D \<Rightarrow> 'f \<Rightarrow>
     DIFF_METHOD \<Rightarrow> CELL_LOC \<Rightarrow> 'f \<times> 'f Vector3D \<times> 'f" where
  "Div_V3_F3 E mesh v f method outloc =
    (let metric = coordinates_object mesh;
         outloc = (if outloc = CELL_DEFAULT then CELL_CENTRE else outloc);
         vcn = v;
         vcn = Vector3D_toContravariant E vcn;
         result = FDDX_F3 E (J metric * x vcn) f method outloc;
         result = result + FDDY_F3 E (J metric * y vcn) f method outloc;
         result = result + FDDZ_F3 E (J metric * z vcn) f method outloc;
         result = result / J metric
     in (result, v, f))"

definition Div_V3_F3_loc_method ::
  "('f::{plus,times,inverse}) extern \<Rightarrow> 'f global_mesh \<Rightarrow> 'f Vector3D \<Rightarrow> 'f \<Rightarrow>
     CELL_LOC \<Rightarrow> DIFF_METHOD \<Rightarrow> 'f \<times> 'f Vector3D \<times> 'f" where
  "Div_V3_F3_loc_method E mesh v f outloc method = Div_V3_F3 E mesh v f method outloc"

definition Div_V3_F3_default ::
  "('f::{plus,times,inverse}) extern \<Rightarrow> 'f global_mesh \<Rightarrow> 'f Vector3D \<Rightarrow> 'f \<Rightarrow>
     'f \<times> 'f Vector3D \<times> 'f" where
  "Div_V3_F3_default E mesh v f = Div_V3_F3 E mesh v f DIFF_DEFAULT CELL_DEFAULT"

subsection \<open>Curl operators\<close>

definition Curl_V2 ::
  "('f::{minus,times,inverse}) extern \<Rightarrow> 'f global_mesh \<Rightarrow> 'f Vector2D \<Rightarrow> CELL_LOC \<Rightarrow>
     'f Vector2D \<times> 'f Vector2D" where
  "Curl_V2 E mesh v outloc =
    (let result = Vector2D_new E;
         metric = coordinates_object mesh;
         vco = v;
         vco = Vector2D_toCovariant E vco;
         result = result\<lparr>x := (DDY_F2 E (z vco) - DDZ_F2 E (y vco)) / J metric\<rparr>;
         result = result\<lparr>y := (DDZ_F2 E (x vco) - DDX_F2 E (z vco)) / J metric\<rparr>;
         result = result\<lparr>z := (DDX_F2 E (y vco) - DDY_F2 E (x vco)) / J metric\<rparr>;
         result = (if ShiftXderivs mesh
                   then result\<lparr>z := z result - (ShiftTorsion metric * z vco) / J metric\<rparr>
                   else result);
         result = result\<lparr>covariant := False\<rparr>
     in (result, v))"

definition Curl_V3 ::
  "('f::{minus,times,inverse}) extern \<Rightarrow> 'f global_mesh \<Rightarrow> 'f Vector3D \<Rightarrow>
     CELL_LOC \<Rightarrow> CELL_LOC \<Rightarrow> CELL_LOC \<Rightarrow> 'f Vector3D \<times> 'f Vector3D" where
  "Curl_V3 E mesh v outloc_x outloc_y outloc_z =
    (let result = Vector3D_new E;
         metric = coordinates_object mesh;
         vco = v;
         vco = Vector3D_toCovariant E vco;
         result = result\<lparr>x := (DDY_F3 E (z vco) outloc_x - DDZ_F3 E (y vco) outloc_x) / J metric\<rparr>;
         result = result\<lparr>y := (DDZ_F3 E (x vco) outloc_y - DDX_F3 E (z vco) outloc_y) / J metric\<rparr>;
         result = result\<lparr>z := (DDX_F3 E (y vco) outloc_z - DDY_F3 E (x vco) outloc_z) / J metric\<rparr>;
         result = (if ShiftXderivs mesh
                   then result\<lparr>z := z result - (ShiftTorsion metric * z vco) / J metric\<rparr>
                   else result);
         result = result\<lparr>covariant := False\<rparr>
     in (result, v))"

definition Curl_V3_loc ::
  "('f::{minus,times,inverse}) extern \<Rightarrow> 'f global_mesh \<Rightarrow> 'f Vector3D \<Rightarrow> CELL_LOC \<Rightarrow>
     'f Vector3D \<times> 'f Vector3D" where
  "Curl_V3_loc E mesh v outloc =
    (if outloc = CELL_VSHIFT then Curl_V3 E mesh v CELL_XLOW CELL_YLOW CELL_ZLOW
     else Curl_V3 E mesh v outloc outloc outloc)"

subsection \<open>Upwinding operators\<close>

definition V_dot_Grad_V2_F2 ::
  "('f::plus) extern \<Rightarrow> 'f Vector2D \<Rightarrow> 'f \<Rightarrow> 'f \<times> 'f Vector2D \<times> 'f" where
  "V_dot_Grad_V2_F2 E v f =
    (let vcn = v;
         vcn = Vector2D_toContravariant E vcn;
         result = VDDX_F2 E (x vcn) f + VDDY_F2 E (y vcn) f + VDDZ_F2 E (z vcn) f
     in (result, v, f))"

definition V_dot_Grad_V2_F3 ::
  "('f::plus) extern \<Rightarrow> 'f Vector2D \<Rightarrow> 'f \<Rightarrow> 'f \<times> 'f Vector2D \<times> 'f" where
  "V_dot_Grad_V2_F3 E v f =
    (let vcn = v;
         vcn = Vector2D_toContravariant E vcn;
         result = VDDX_F3 E (x vcn) f + VDDY_F3 E (y vcn) f + VDDZ_F3 E (z vcn) f
     in (result, v, f))"

definition V_dot_Grad_V3_F2 ::
  "('f::plus) extern \<Rightarrow> 'f Vector3D \<Rightarrow> 'f \<Rightarrow> 'f \<times> 'f Vector3D \<times> 'f" where
  "V_dot_Grad_V3_F2 E v f =
    (let vcn = v;
         vcn = Vector3D_toContravariant E vcn;
         result = VDDX_F3 E (x vcn) f + VDDY_F3 E (y vcn) f + VDDZ_F3 E (z vcn) f
     in (result, v, f))"

definition V_dot_Grad_V3_F3 ::
  "('f::plus) extern \<Rightarrow> 'f Vector3D \<Rightarrow> 'f \<Rightarrow> 'f \<times> 'f Vector3D \<times> 'f" where
  "V_dot_Grad_V3_F3 E v f =
    (let vcn = v;
         vcn = Vector3D_toContravariant E vcn;
         result = VDDX_F3 E (x vcn) f + VDDY_F3 E (y vcn) f + VDDZ_F3 E (z vcn) f
     in (result, v, f))"

text \<open>
  The four overloads of \<^verbatim>\<open>V_dot_Grad\<close> for a vector target have the same body, token
  for token; they differ in the classes of \<open>v\<close>, \<open>a\<close> and \<open>result\<close>, from which
  overload resolution picks the upwind functions, the constructor of the result and
  the conversion of the velocity. The body is written once, over those five.
\<close>

definition V_dot_Grad_vector ::
  "('f \<Rightarrow> 'f \<Rightarrow> 'f) \<Rightarrow> ('f \<Rightarrow> 'f \<Rightarrow> 'f) \<Rightarrow> ('f \<Rightarrow> 'f \<Rightarrow> 'f) \<Rightarrow> 'f Vector \<Rightarrow>
     ('f Vector \<Rightarrow> 'f Vector) \<Rightarrow> ('f::{plus,minus,times}) global_mesh \<Rightarrow> 'f Vector \<Rightarrow> 'f Vector \<Rightarrow>
     'f Vector \<times> 'f Vector \<times> 'f Vector" where
  "V_dot_Grad_vector VDDX VDDY VDDZ new toContravariant mesh v a =
    (let result = new;
         metric = coordinates_object mesh;
         vcn = v;
         vcn = toContravariant vcn;
         result =
          (if covariant a then
            (let
              result = result\<lparr>x := VDDX (x vcn) (x a) + VDDY (y vcn) (x a) + VDDZ (z vcn) (x a)\<rparr>;
              result = result\<lparr>x := x result - x vcn * (G1_11 metric * x a + G2_11 metric * y a + G3_11 metric * z a)\<rparr>;
              result = result\<lparr>x := x result - y vcn * (G1_12 metric * x a + G2_12 metric * y a)\<rparr>;
              result = result\<lparr>x := x result - z vcn * (G1_13 metric * x a + G3_13 metric * z a)\<rparr>;

              result = result\<lparr>y := VDDX (x vcn) (y a) + VDDY (y vcn) (y a) + VDDZ (z vcn) (y a)\<rparr>;
              result = result\<lparr>y := y result - x vcn * (G1_12 metric * x a + G2_12 metric * y a)\<rparr>;
              result = result\<lparr>y := y result - y vcn * (G1_22 metric * x a + G2_22 metric * y a + G3_22 metric * z a)\<rparr>;
              result = result\<lparr>y := y result - z vcn * (G2_23 metric * y a + G3_23 metric * z a)\<rparr>;

              result = result\<lparr>z := VDDX (x vcn) (z a) + VDDY (y vcn) (z a) + VDDZ (z vcn) (z a)\<rparr>;
              result = result\<lparr>z := z result - x vcn * (G1_13 metric * x a + G3_13 metric * z a)\<rparr>;
              result = result\<lparr>z := z result - y vcn * (G2_23 metric * y a + G3_23 metric * z a)\<rparr>;
              result = result\<lparr>z := z result - z vcn * (G1_33 metric * x a + G2_33 metric * y a + G3_33 metric * z a)\<rparr>;

              result = result\<lparr>covariant := True\<rparr>
             in result)
           else
            (let
              result = result\<lparr>x := VDDX (x vcn) (x a) + VDDY (y vcn) (x a) + VDDZ (z vcn) (x a)\<rparr>;
              result = result\<lparr>x := x result + x vcn * (G1_11 metric * x a + G1_12 metric * y a + G1_13 metric * z a)\<rparr>;
              result = result\<lparr>x := x result + y vcn * (G1_12 metric * x a + G1_22 metric * y a)\<rparr>;
              result = result\<lparr>x := x result + z vcn * (G1_13 metric * x a + G1_33 metric * z a)\<rparr>;

              result = result\<lparr>y := VDDX (x vcn) (y a) + VDDY (y vcn) (y a) + VDDZ (z vcn) (y a)\<rparr>;
              result = result\<lparr>y := y result + x vcn * (G2_11 metric * x a + G2_12 metric * y a)\<rparr>;
              result = result\<lparr>y := y result + y vcn * (G2_12 metric * x a + G2_22 metric * y a + G2_23 metric * z a)\<rparr>;
              result = result\<lparr>y := y result + z vcn * (G2_23 metric * y a + G2_33 metric * z a)\<rparr>;

              result = result\<lparr>z := VDDX (x vcn) (z a) + VDDY (y vcn) (z a) + VDDZ (z vcn) (z a)\<rparr>;
              result = result\<lparr>z := z result + x vcn * (G3_11 metric * x a + G3_13 metric * z a)\<rparr>;
              result = result\<lparr>z := z result + y vcn * (G3_22 metric * y a + G3_23 metric * z a)\<rparr>;
              result = result\<lparr>z := z result + z vcn * (G3_13 metric * x a + G3_23 metric * y a + G3_33 metric * z a)\<rparr>;

              result = result\<lparr>covariant := False\<rparr>
             in result))
     in (result, v, a))"

definition V_dot_Grad_V2_V2 ::
  "('f::{plus,minus,times}) extern \<Rightarrow> 'f global_mesh \<Rightarrow> 'f Vector2D \<Rightarrow> 'f Vector2D \<Rightarrow>
     'f Vector2D \<times> 'f Vector2D \<times> 'f Vector2D" where
  "V_dot_Grad_V2_V2 E mesh v a =
     V_dot_Grad_vector (VDDX_F2 E) (VDDY_F2 E) (VDDZ_F2 E) (Vector2D_new E)
       (Vector2D_toContravariant E) mesh v a"

definition V_dot_Grad_V2_V3 ::
  "('f::{plus,minus,times}) extern \<Rightarrow> 'f global_mesh \<Rightarrow> 'f Vector2D \<Rightarrow> 'f Vector3D \<Rightarrow>
     'f Vector3D \<times> 'f Vector2D \<times> 'f Vector3D" where
  "V_dot_Grad_V2_V3 E mesh v a =
     V_dot_Grad_vector (VDDX_F3 E) (VDDY_F3 E) (VDDZ_F3 E) (Vector3D_new E)
       (Vector2D_toContravariant E) mesh v a"

definition V_dot_Grad_V3_V2 ::
  "('f::{plus,minus,times}) extern \<Rightarrow> 'f global_mesh \<Rightarrow> 'f Vector3D \<Rightarrow> 'f Vector2D \<Rightarrow>
     'f Vector3D \<times> 'f Vector3D \<times> 'f Vector2D" where
  "V_dot_Grad_V3_V2 E mesh v a =
     V_dot_Grad_vector (VDDX_F3 E) (VDDY_F3 E) (VDDZ_F3 E) (Vector3D_new E)
       (Vector3D_toContravariant E) mesh v a"

definition V_dot_Grad_V3_V3 ::
  "('f::{plus,minus,times}) extern \<Rightarrow> 'f global_mesh \<Rightarrow> 'f Vector3D \<Rightarrow> 'f Vector3D \<Rightarrow>
     'f Vector3D \<times> 'f Vector3D \<times> 'f Vector3D" where
  "V_dot_Grad_V3_V3 E mesh v a =
     V_dot_Grad_vector (VDDX_F3 E) (VDDY_F3 E) (VDDZ_F3 E) (Vector3D_new E)
       (Vector3D_toContravariant E) mesh v a"

section \<open>The formulas of the specification\<close>

text \<open>
  The definitions of this section follow the wording of the specification; the
  theorems compare them with the operators above.
\<close>

text \<open>Flux form of the divergence: the sum over the axes of d/d(axis) [J v^axis], over J.\<close>

definition flux_form_divergence ::
  "('f \<Rightarrow> 'f) \<Rightarrow> ('f \<Rightarrow> 'f) \<Rightarrow> ('f \<Rightarrow> 'f) \<Rightarrow> 'f \<Rightarrow> ('f::{plus,times,inverse}) Vector \<Rightarrow> 'f" where
  "flux_form_divergence d_dx d_dy d_dz Jac vcn =
     (d_dx (Jac * x vcn) + d_dy (Jac * y vcn) + d_dz (Jac * z vcn)) / Jac"

text \<open>
  The curl without torsion: each contravariant component is the antisymmetric
  difference of the two cross-axis derivatives of the covariant components, over J.
\<close>

definition antisymmetric_curl ::
  "('f \<Rightarrow> CELL_LOC \<Rightarrow> 'f) \<Rightarrow> ('f \<Rightarrow> CELL_LOC \<Rightarrow> 'f) \<Rightarrow> ('f \<Rightarrow> CELL_LOC \<Rightarrow> 'f) \<Rightarrow> 'f \<Rightarrow>
     ('f::{minus,inverse}) Vector \<Rightarrow> CELL_LOC \<Rightarrow> CELL_LOC \<Rightarrow> CELL_LOC \<Rightarrow> 'f Vector" where
  "antisymmetric_curl d_dx d_dy d_dz Jac vco loc_x loc_y loc_z =
     \<lparr>x = (d_dy (z vco) loc_x - d_dz (y vco) loc_x) / Jac,
      y = (d_dz (x vco) loc_y - d_dx (z vco) loc_y) / Jac,
      z = (d_dx (y vco) loc_z - d_dy (x vco) loc_z) / Jac,
      covariant = False\<rparr>"

definition shift_torsion_correction ::
  "('f::{times,inverse}) Coordinates \<Rightarrow> 'f Vector \<Rightarrow> 'f" where
  "shift_torsion_correction metric vco = (ShiftTorsion metric * z vco) / J metric"

text \<open>The weight of the parallel derivative in \<^verbatim>\<open>Grad_perp\<close>: (1/(J Bxy)) squared.\<close>

definition parallel_weight :: "('f::{one,times,inverse}) Coordinates \<Rightarrow> 'f" where
  "parallel_weight metric = (1 / (J metric * Bxy metric)) * (1 / (J metric * Bxy metric))"

text \<open>
  The connection coefficients by index: \<open>Christoffel metric k i j\<close> is the symbol with
  upper index \<open>k\<close> and lower indices \<open>i\<close>, \<open>j\<close>, symmetric in the lower pair. The three
  symbols that the operators never read (upper 1 with lower 23, upper 2 with lower 13,
  upper 3 with lower 12) are absent.
\<close>

datatype index = I1 | I2 | I3

fun Christoffel :: "'f Coordinates \<Rightarrow> index \<Rightarrow> index \<Rightarrow> index \<Rightarrow> 'f option" where
  "Christoffel metric I1 I1 I1 = Some (G1_11 metric)"
| "Christoffel metric I1 I2 I2 = Some (G1_22 metric)"
| "Christoffel metric I1 I3 I3 = Some (G1_33 metric)"
| "Christoffel metric I1 I1 I2 = Some (G1_12 metric)"
| "Christoffel metric I1 I2 I1 = Some (G1_12 metric)"
| "Christoffel metric I1 I1 I3 = Some (G1_13 metric)"
| "Christoffel metric I1 I3 I1 = Some (G1_13 metric)"
| "Christoffel metric I1 I2 I3 = None"
| "Christoffel metric I1 I3 I2 = None"
| "Christoffel metric I2 I1 I1 = Some (G2_11 metric)"
| "Christoffel metric I2 I2 I2 = Some (G2_22 metric)"
| "Christoffel metric I2 I3 I3 = Some (G2_33 metric)"
| "Christoffel metric I2 I1 I2 = Some (G2_12 metric)"
| "Christoffel metric I2 I2 I1 = Some (G2_12 metric)"
| "Christoffel metric I2 I2 I3 = Some (G2_23 metric)"
| "Christoffel metric I2 I3 I2 = Some (G2_23 metric)"
| "Christoffel metric I2 I1 I3 = None"
| "Christoffel metric I2 I3 I1 = None"
| "Christoffel metric I3 I1 I1 = Some (G3_11 metric)"
| "Christoffel metric I3 I2 I2 = Some (G3_22 metric)"
| "Christoffel metric I3 I3 I3 = Some (G3_33 metric)"
| "Christoffel metric I3 I1 I3 = Some (G3_13 metric)"
| "Christoffel metric I3 I3 I1 = Some (G3_13 metric)"
| "Christoffel metric I3 I2 I3 = Some (G3_23 metric)"
| "Christoffel metric I3 I3 I2 = Some (G3_23 metric)"
| "Christoffel metric I3 I1 I2 = None"
| "Christoffel metric I3 I2 I1 = None"

fun component :: "'f Vector \<Rightarrow> index \<Rightarrow> 'f" where
  "component u I1 = x u"
| "component u I2 = y u"
| "component u I3 = z u"

text \<open>The terms of a contraction are added from left to right.\<close>

fun sum_left :: "('f::{zero,plus}) list \<Rightarrow> 'f" where
  "sum_left [] = 0"
| "sum_left (t # ts) = foldl (+) t ts"

text \<open>
  Contraction with the lower-index symbols, for a covariant target: the sum over \<open>k\<close>
  of the symbol with upper index \<open>k\<close> and lower indices \<open>i j\<close> times the component \<open>k\<close>
  of the target.
\<close>

definition lower_index_contraction ::
  "('f::{zero,plus,times}) Coordinates \<Rightarrow> 'f Vector \<Rightarrow> index \<Rightarrow> index \<Rightarrow> 'f" where
  "lower_index_contraction metric a i j =
     sum_left (concat (map (\<lambda>k. case Christoffel metric k i j of
                                   None \<Rightarrow> [] | Some G \<Rightarrow> [G * component a k]) [I1, I2, I3]))"

text \<open>
  Contraction with the upper-index symbols, for a contravariant target: the sum over
  \<open>k\<close> of the symbol with upper index \<open>i\<close> and lower indices \<open>j k\<close> times the
  component \<open>k\<close> of the target.
\<close>

definition upper_index_contraction ::
  "('f::{zero,plus,times}) Coordinates \<Rightarrow> 'f Vector \<Rightarrow> index \<Rightarrow> index \<Rightarrow> 'f" where
  "upper_index_contraction metric a i j =
     sum_left (concat (map (\<lambda>k. case Christoffel metric i j k of
                                   None \<Rightarrow> [] | Some G \<Rightarrow> [G * component a k]) [I1, I2, I3]))"

text \<open>The upwind derivative of one component of the target along the velocity.\<close>

definition advection ::
  "('f \<Rightarrow> 'f \<Rightarrow> 'f) \<Rightarrow> ('f \<Rightarrow> 'f \<Rightarrow> 'f) \<Rightarrow> ('f \<Rightarrow> 'f \<Rightarrow> 'f) \<Rightarrow> ('f::plus) Vector \<Rightarrow> 'f \<Rightarrow> 'f" where
  "advection VDDX VDDY VDDZ vcn c = VDDX (x vcn) c + VDDY (y vcn) c + VDDZ (z vcn) c"

text \<open>
  Component \<open>i\<close> of the advected vector: for a covariant target the corrections
  (velocity component \<open>j\<close> times the lower-index contraction) are subtracted one after
  the other, for a contravariant target the corrections with the upper-index
  contraction are added.
\<close>

definition covariant_target_component ::
  "('f \<Rightarrow> 'f \<Rightarrow> 'f) \<Rightarrow> ('f \<Rightarrow> 'f \<Rightarrow> 'f) \<Rightarrow> ('f \<Rightarrow> 'f \<Rightarrow> 'f) \<Rightarrow> ('f::{zero,plus,minus,times}) Coordinates \<Rightarrow>
     'f Vector \<Rightarrow> 'f Vector \<Rightarrow> index \<Rightarrow> 'f" where
  "covariant_target_component VDDX VDDY VDDZ metric vcn a i =
     foldl (\<lambda>r j. r - component vcn j * lower_index_contraction metric a i j)
       (advection VDDX VDDY VDDZ vcn (component a i)) [I1, I2, I3]"

definition contravariant_target_component ::
  "('f \<Rightarrow> 'f \<Rightarrow> 'f) \<Rightarrow> ('f \<Rightarrow> 'f \<Rightarrow> 'f) \<Rightarrow> ('f \<Rightarrow> 'f \<Rightarrow> 'f) \<Rightarrow> ('f::{zero,plus,minus,times}) Coordinates \<Rightarrow>
     'f Vector \<Rightarrow> 'f Vector \<Rightarrow> index \<Rightarrow> 'f" where
  "contravariant_target_component VDDX VDDY VDDZ metric vcn a i =
     foldl (\<lambda>r j. r + component vcn j * upper_index_contraction metric a i j)
       (advection VDDX VDDY VDDZ vcn (component a i)) [I1, I2, I3]"

definition advected_vector ::
  "('f \<Rightarrow> 'f \<Rightarrow> 'f) \<Rightarrow> ('f \<Rightarrow> 'f \<Rightarrow> 'f) \<Rightarrow> ('f \<Rightarrow> 'f \<Rightarrow> 'f) \<Rightarrow> ('f::{zero,plus,minus,times}) Coordinates \<Rightarrow>
     'f Vector \<Rightarrow> 'f Vector \<Rightarrow> 'f Vector" where
  "advected_vector VDDX VDDY VDDZ metric vcn a =
     (if covariant a then
        \<lparr>x = covariant_target_component VDDX VDDY VDDZ metric vcn a I1,
         y = covariant_target_component VDDX VDDY VDDZ metric vcn a I2,
         z = covariant_target_component VDDX VDDY VDDZ metric vcn a I3,
         covariant = True\<rparr>
      else
        \<lparr>x = contravariant_target_component VDDX VDDY VDDZ metric vcn a I1,
         y = contravariant_target_component VDDX VDDY VDDZ metric vcn a I2,
         z = contravariant_target_component VDDX VDDY VDDZ metric vcn a I3,
         covariant = False\<rparr>)"

section \<open>The accessor Mesh::coordinates\<close>

text \<open>
  The state around one \<^verbatim>\<open>Mesh\<close>: its member \<^verbatim>\<open>coords\<close>, a pointer that is \<open>None\<close> when
  null and \<open>Some p\<close> when it holds the address \<open>p\<close>, and the \<^verbatim>\<open>Coordinates\<close> objects
  allocated so far in the order of their allocation. The address of an object is its
  position in that list.
\<close>

record 'c Mesh =
  coords :: "nat option"
  allocated :: "'c list"

text \<open>
  Modelled from the spec: \<^verbatim>\<open>Mesh::createDefaultCoordinates\<close> is declared in
  \<^verbatim>\<open>mesh.hxx\<close> ("Allocates a default Coordinates object") and defined outside the
  sources. It allocates one new object, the default coordinate system \<open>dflt\<close>, and
  returns its address.
\<close>

definition createDefaultCoordinates :: "'c \<Rightarrow> 'c Mesh \<Rightarrow> nat option \<times> 'c Mesh" where
  "createDefaultCoordinates dflt m =
     (Some (length (allocated m)), m\<lparr>allocated := allocated m @ [dflt]\<rparr>)"

definition coordinates :: "'c \<Rightarrow> 'c Mesh \<Rightarrow> nat option \<times> 'c Mesh" where
  "coordinates dflt m =
     (if coords m \<noteq> None then (coords m, m)
      else (let (p, m) = createDefaultCoordinates dflt m;
                m = m\<lparr>coords := p\<rparr>
            in (coords m, m)))"

text \<open>\<open>n\<close> calls of the accessor one after the other, with the pointers they return.\<close>

fun coordinates_calls :: "nat \<Rightarrow> 'c \<Rightarrow> 'c Mesh \<Rightarrow> nat option list \<times> 'c Mesh" where
  "coordinates_calls 0 dflt m = ([], m)"
| "coordinates_calls (Suc n) dflt m =
     (let (p, m) = coordinates dflt m;
          (ps, m) = coordinates_calls n dflt m
      in (p # ps, m))"

section \<open>The overloads of Mesh::get\<close>

text \<open>
  The grid data source as a table from variable names to values, one table for each
  kind of variable.
\<close>

record ('r, 'f) GridDataSource =
  int_vars :: "string \<rightharpoonup> int"
  real_vars :: "string \<rightharpoonup> 'r"
  field2d_vars :: "string \<rightharpoonup> 'f"
  field3d_vars :: "string \<rightharpoonup> 'f"

text \<open>
  The overloads of \<^verbatim>\<open>Mesh::get\<close> are declared in \<^verbatim>\<open>mesh.hxx\<close> and defined outside the
  sources; each model follows the documentation of its declaration and returns the
  status together with the variable after the call. Guard cells are not modelled.
\<close>

text \<open>
  Modelled from the spec: \<^verbatim>\<open>get(int &ival, name)\<close> puts the value into \<open>ival\<close> and
  returns zero if successful, non-zero (here 1) on failure.
\<close>

definition get_int :: "('r, 'f) GridDataSource \<Rightarrow> int \<Rightarrow> string \<Rightarrow> int \<times> int" where
  "get_int source ival name =
     (case int_vars source name of Some value \<Rightarrow> (0, value) | None \<Rightarrow> (1, ival))"

text \<open>
  Modelled from the spec: \<^verbatim>\<open>get(BoutReal &rval, name)\<close> puts the value into \<open>rval\<close> and
  returns zero if successful, non-zero (here 1) on failure.
\<close>

definition get_BoutReal :: "('r, 'f) GridDataSource \<Rightarrow> 'r \<Rightarrow> string \<Rightarrow> int \<times> 'r" where
  "get_BoutReal source rval name =
     (case real_vars source name of Some value \<Rightarrow> (0, value) | None \<Rightarrow> (1, rval))"

text \<open>
  Modelled from the spec: \<^verbatim>\<open>get(Field2D &var, name, def)\<close> sets \<open>var\<close> to the value, or
  to the default \<open>def\<close> if the name is not found, and returns zero if successful,
  non-zero (here 1) on failure.
\<close>

definition get_Field2D :: "('r, 'f) GridDataSource \<Rightarrow> 'f \<Rightarrow> string \<Rightarrow> 'f \<Rightarrow> int \<times> 'f" where
  "get_Field2D source var name def =
     (case field2d_vars source name of Some value \<Rightarrow> (0, value) | None \<Rightarrow> (1, def))"

text \<open>
  Modelled from the spec: \<^verbatim>\<open>get(Field3D &var, name, def, communicate)\<close> sets \<open>var\<close> to
  the value, or to the default \<open>def\<close> if the name is not found, and returns zero if
  successful, non-zero (here 1) on failure.
\<close>

definition get_Field3D :: "('r, 'f) GridDataSource \<Rightarrow> 'f \<Rightarrow> string \<Rightarrow> 'f \<Rightarrow> int \<times> 'f" where
  "get_Field3D source var name def =
     (case field3d_vars source name of Some value \<Rightarrow> (0, value) | None \<Rightarrow> (1, def))"

text \<open>
  Modelled from the spec: \<^verbatim>\<open>get(Vector2D &var, name)\<close> gets three \<^verbatim>\<open>Field2D\<close> variables
  with "_x", "_y", "_z" appended to the name if \<open>var\<close> is covariant and with "x", "y",
  "z" appended if it is contravariant; all fields revert to zero by default; it
  returns zero always.
\<close>

definition get_Vector2D ::
  "('r, 'f::zero) GridDataSource \<Rightarrow> 'f Vector2D \<Rightarrow> string \<Rightarrow> int \<times> 'f Vector2D" where
  "get_Vector2D source var name =
     (if covariant var then
        (let var = var\<lparr>x := snd (get_Field2D source (x var) (name @ ''_x'') 0)\<rparr>;
             var = var\<lparr>y := snd (get_Field2D source (y var) (name @ ''_y'') 0)\<rparr>;
             var = var\<lparr>z := snd (get_Field2D source (z var) (name @ ''_z'') 0)\<rparr>
         in (0, var))
      else
        (let var = var\<lparr>x := snd (get_Field2D source (x var) (name @ ''x'') 0)\<rparr>;
             var = var\<lparr>y := snd (get_Field2D source (y var) (name @ ''y'') 0)\<rparr>;
             var = var\<lparr>z := snd (get_Field2D source (z var) (name @ ''z'') 0)\<rparr>
         in (0, var)))"

text \<open>
  Modelled from the spec: \<^verbatim>\<open>get(Vector3D &var, name)\<close> gets three \<^verbatim>\<open>Field3D\<close> variables
  with "_x", "_y", "_z" appended to the name if \<open>var\<close> is covariant and with "x", "y",
  "z" appended if it is contravariant; all fields revert to zero by default; it
  returns zero always.
\<close>

definition get_Vector3D ::
  "('r, 'f::zero) GridDataSource \<Rightarrow> 'f Vector3D \<Rightarrow> string \<Rightarrow> int \<times> 'f Vector3D" where
  "get_Vector3D source var name =
     (if covariant var then
        (let var = var\<lparr>x := snd (get_Field3D source (x var) (name @ ''_x'') 0)\<rparr>;
             var = var\<lparr>y := snd (get_Field3D source (y var) (name @ ''_y'') 0)\<rparr>;
             var = var\<lparr>z := snd (get_Field3D source (z var) (name @ ''_z'') 0)\<rparr>
         in (0, var))
      else
        (let var = var\<lparr>x := snd (get_Field3D source (x var) (name @ ''x'') 0)\<rparr>;
             var = var\<lparr>y := snd (get_Field3D source (y var) (name @ ''y'') 0)\<rparr>;
             var = var\<lparr>z := snd (get_Field3D source (z var) (name @ ''z'') 0)\<rparr>
         in (0, var)))"

section \<open>A symbolic field algebra\<close>

text \<open>
  Fields as terms: a given field has a name and a cell location, and every arithmetic
  operator and every function of the record \<open>extern\<close> is a constructor, so the value
  of an operator on symbolic fields is the record of the calls it makes. The examples
  below are evaluated in this algebra.
\<close>

datatype sym =
    SGiven string CELL_LOC
  | SZero
  | SOne
  | SAdd sym sym
  | SSub sym sym
  | SMul sym sym
  | SDiv sym sym
  | SInv sym
  | SDeriv string sym "CELL_LOC option"
  | SFlux string sym sym "(DIFF_METHOD \<times> CELL_LOC) option"
  | SUpwind string sym sym
  | SConv string index sym sym sym

instantiation sym :: "{zero,one,plus,minus,times,inverse}"
begin
definition zero_sym_def: "0 = SZero"
definition one_sym_def: "1 = SOne"
definition plus_sym_def: "a + b = SAdd a b"
definition minus_sym_def: "a - b = SSub a b"
definition times_sym_def: "a * b = SMul a b"
definition divide_sym_def: "divide a b = SDiv a b"
definition inverse_sym_def: "inverse a = SInv a"
instance ..
end

lemmas sym_arith =
  zero_sym_def one_sym_def plus_sym_def minus_sym_def times_sym_def divide_sym_def

text \<open>
  A conversion leaves a vector of the target kind as it is and otherwise replaces each
  component by a term over the three old components.
\<close>

definition sym_convert :: "string \<Rightarrow> bool \<Rightarrow> sym Vector \<Rightarrow> sym Vector" where
  "sym_convert name target u =
     (if covariant u = target then u
      else \<lparr>x = SConv name I1 (x u) (y u) (z u),
            y = SConv name I2 (x u) (y u) (z u),
            z = SConv name I3 (x u) (y u) (z u),
            covariant = target\<rparr>)"

definition sym_vector :: "string \<Rightarrow> CELL_LOC \<Rightarrow> bool \<Rightarrow> sym Vector" where
  "sym_vector name loc cov =
     \<lparr>x = SGiven (name @ ''.x'') loc, y = SGiven (name @ ''.y'') loc,
      z = SGiven (name @ ''.z'') loc, covariant = cov\<rparr>"

text \<open>
  Modelled from the spec: the location tag of a field is kept by the field classes,
  which are not among the sources. A given field is at its own location; a derivative
  is at the output location requested of it, and at the location of the
  differentiated field when none is requested; constants are at the cell centre. By
  convention of the examples, the result of an arithmetic operator is at the location
  of its left operand and a converted component at the location of the component it
  replaces.
\<close>

fun sym_location :: "sym \<Rightarrow> CELL_LOC" where
  "sym_location (SGiven n loc) = loc"
| "sym_location SZero = CELL_CENTRE"
| "sym_location SOne = CELL_CENTRE"
| "sym_location (SAdd a b) = sym_location a"
| "sym_location (SSub a b) = sym_location a"
| "sym_location (SMul a b) = sym_location a"
| "sym_location (SDiv a b) = sym_location a"
| "sym_location (SInv a) = sym_location a"
| "sym_location (SDeriv n f None) = sym_location f"
| "sym_location (SDeriv n f (Some outloc)) =
     (if outloc = CELL_DEFAULT then sym_location f else outloc)"
| "sym_location (SFlux n v f None) = sym_location f"
| "sym_location (SFlux n v f (Some (method, outloc))) =
     (if outloc = CELL_DEFAULT then sym_location f else outloc)"
| "sym_location (SUpwind n v f) = sym_location f"
| "sym_location (SConv n I1 a b c) = sym_location a"
| "sym_location (SConv n I2 a b c) = sym_location b"
| "sym_location (SConv n I3 a b c) = sym_location c"

text \<open>The symbolic functions.\<close>

definition sym_extern :: "sym extern" where
  "sym_extern =
     \<lparr>getLocation = sym_location,
      DDX_F2 = (\<lambda>f. SDeriv ''DDX'' f None),
      DDY_F2 = (\<lambda>f. SDeriv ''DDY'' f None),
      DDZ_F2 = (\<lambda>f. SDeriv ''DDZ'' f None),
      DDX_F3 = (\<lambda>f outloc. SDeriv ''DDX'' f (Some outloc)),
      DDY_F3 = (\<lambda>f outloc. SDeriv ''DDY'' f (Some outloc)),
      DDZ_F3 = (\<lambda>f outloc. SDeriv ''DDZ'' f (Some outloc)),
      FDDX_F2 = (\<lambda>v f. SFlux ''FDDX'' v f None),
      FDDY_F2 = (\<lambda>v f. SFlux ''FDDY'' v f None),
      FDDZ_F2 = (\<lambda>v f. SFlux ''FDDZ'' v f None),
      FDDX_F3 = (\<lambda>v f method outloc. SFlux ''FDDX'' v f (Some (method, outloc))),
      FDDY_F3 = (\<lambda>v f method outloc. SFlux ''FDDY'' v f (Some (method, outloc))),
      FDDZ_F3 = (\<lambda>v f method outloc. SFlux ''FDDZ'' v f (Some (method, outloc))),
      VDDX_F2 = (\<lambda>v f. SUpwind ''VDDX'' v f),
      VDDY_F2 = (\<lambda>v f. SUpwind ''VDDY'' v f),
      VDDZ_F2 = (\<lambda>v f. SUpwind ''VDDZ'' v f),
      VDDX_F3 = (\<lambda>v f. SUpwind ''VDDX'' v f),
      VDDY_F3 = (\<lambda>v f. SUpwind ''VDDY'' v f),
      VDDZ_F3 = (\<lambda>v f. SUpwind ''VDDZ'' v f),
      Vector2D_new = sym_vector ''new'' CELL_CENTRE True,
      Vector3D_new = sym_vector ''new'' CELL_CENTRE True,
      Vector2D_toContravariant = sym_convert ''toContravariant'' False,
      Vector3D_toContravariant = sym_convert ''toContravariant'' False,
      Vector2D_toCovariant = sym_convert ''toCovariant'' True,
      Vector3D_toCovariant = sym_convert ''toCovariant'' True\<rparr>"

definition sym_metric :: "sym Coordinates" where
  "sym_metric =
     \<lparr>J = SGiven ''J'' CELL_CENTRE, Bxy = SGiven ''Bxy'' CELL_CENTRE,
      g_12 = SGiven ''g_12'' CELL_CENTRE, g_23 = SGiven ''g_23'' CELL_CENTRE,
      ShiftTorsion = SGiven ''ShiftTorsion'' CELL_CENTRE,
      G1_11 = SGiven ''G1_11'' CELL_CENTRE, G1_22 = SGiven ''G1_22'' CELL_CENTRE,
      G1_33 = SGiven ''G1_33'' CELL_CENTRE, G1_12 = SGiven ''G1_12'' CELL_CENTRE,
      G1_13 = SGiven ''G1_13'' CELL_CENTRE,
      G2_11 = SGiven ''G2_11'' CELL_CENTRE, G2_22 = SGiven ''G2_22'' CELL_CENTRE,
      G2_33 = SGiven ''G2_33'' CELL_CENTRE, G2_12 = SGiven ''G2_12'' CELL_CENTRE,
      G2_23 = SGiven ''G2_23'' CELL_CENTRE,
      G3_11 = SGiven ''G3_11'' CELL_CENTRE, G3_22 = SGiven ''G3_22'' CELL_CENTRE,
      G3_33 = SGiven ''G3_33'' CELL_CENTRE, G3_13 = SGiven ''G3_13'' CELL_CENTRE,
      G3_23 = SGiven ''G3_23'' CELL_CENTRE\<rparr>"

definition sym_mesh :: "bool \<Rightarrow> sym global_mesh" where
  "sym_mesh shift = \<lparr>coordinates_object = sym_metric, ShiftXderivs = shift\<rparr>"

text \<open>
  The output locations that a symbolic field records: the location arguments of its
  derivative and flux nodes, from left to right.
\<close>

fun requested_locations :: "sym \<Rightarrow> CELL_LOC list" where
  "requested_locations (SGiven n loc) = []"
| "requested_locations SZero = []"
| "requested_locations SOne = []"
| "requested_locations (SAdd a b) = requested_locations a @ requested_locations b"
| "requested_locations (SSub a b) = requested_locations a @ requested_locations b"
| "requested_locations (SMul a b) = requested_locations a @ requested_locations b"
| "requested_locations (SDiv a b) = requested_locations a @ requested_locations b"
| "requested_locations (SInv a) = requested_locations a"
| "requested_locations (SDeriv n f None) = requested_locations f"
| "requested_locations (SDeriv n f (Some outloc)) = outloc # requested_locations f"
| "requested_locations (SFlux n v f None) = requested_locations v @ requested_locations f"
| "requested_locations (SFlux n v f (Some (method, outloc))) =
     outloc # requested_locations v @ requested_locations f"
| "requested_locations (SUpwind n v f) = requested_locations v @ requested_locations f"
| "requested_locations (SConv n i a b c) =
     requested_locations a @ requested_locations b @ requested_locations c"

section \<open>Theorems\<close>

text \<open>
  C6. \<^verbatim>\<open>Grad\<close> of a scalar field returns the vector of the first derivatives of the field
  along X, Y and Z, each at the output location requested for its axis (the location
  of the field where none is requested), and the result is covariant in every case:
  for the \<^verbatim>\<open>Field2D\<close> overload, whose derivatives take no location, for the
  \<^verbatim>\<open>Field3D\<close> overload with three locations and for the overload with one location.
\<close>

theorem Grad_is_covariant_vector_of_derivatives:
  "fst (Grad_F2 E f outloc) =
     \<lparr>x = DDX_F2 E f, y = DDY_F2 E f, z = DDZ_F2 E f, covariant = True\<rparr>
   \<and> fst (Grad_F3 E f outloc_x outloc_y outloc_z) =
     \<lparr>x = DDX_F3 E f (if outloc_x = CELL_DEFAULT then getLocation E f else outloc_x),
      y = DDY_F3 E f (if outloc_y = CELL_DEFAULT then getLocation E f else outloc_y),
      z = DDZ_F3 E f (if outloc_z = CELL_DEFAULT then getLocation E f else outloc_z),
      covariant = True\<rparr>
   \<and> covariant (fst (Grad_F3_loc E f outloc))
   \<and> fst (Grad_F3_loc E f CELL_VSHIFT) =
     \<lparr>x = DDX_F3 E f CELL_XLOW, y = DDY_F3 E f CELL_YLOW, z = DDZ_F3 E f CELL_ZLOW,
      covariant = True\<rparr>"
  by (simp add: Grad_F2_def Grad_F3_def Grad_F3_loc_def)

text \<open>
  C1, as amended. An output location left at \<^verbatim>\<open>CELL_DEFAULT\<close> is replaced, axis by
  axis, by the location of the field \<open>f\<close> in \<^verbatim>\<open>Grad\<close> on a \<^verbatim>\<open>Field3D\<close> (with three
  locations or with one) and, for the axes x and z, in \<^verbatim>\<open>Grad_perp\<close>; in \<^verbatim>\<open>Div\<close> on a
  \<^verbatim>\<open>Vector3D\<close>, plain or in flux form, it is replaced by \<^verbatim>\<open>CELL_CENTRE\<close>, whatever the
  locations of the components of the operand. In each case the replaced location is
  the one handed to the derivative functions. \<^verbatim>\<open>Curl\<close> on a \<^verbatim>\<open>Vector3D\<close> replaces
  nothing: it hands \<^verbatim>\<open>CELL_DEFAULT\<close> to the derivative functions as it is. The
  overloads on \<^verbatim>\<open>Field2D\<close> and \<^verbatim>\<open>Vector2D\<close> do not use their output location.
\<close>

theorem output_location_defaulting:
  "Grad_F3 E f CELL_DEFAULT outloc_y outloc_z = Grad_F3 E f (getLocation E f) outloc_y outloc_z
   \<and> Grad_F3 E f outloc_x CELL_DEFAULT outloc_z = Grad_F3 E f outloc_x (getLocation E f) outloc_z
   \<and> Grad_F3 E f outloc_x outloc_y CELL_DEFAULT = Grad_F3 E f outloc_x outloc_y (getLocation E f)
   \<and> fst (Grad_F3_loc E f CELL_DEFAULT) =
       \<lparr>x = DDX_F3 E f (getLocation E f), y = DDY_F3 E f (getLocation E f),
        z = DDZ_F3 E f (getLocation E f), covariant = True\<rparr>
   \<and> Grad_perp E mesh f CELL_DEFAULT outloc_y outloc_z =
       Grad_perp E mesh f (getLocation E f) outloc_y outloc_z
   \<and> Grad_perp E mesh f outloc_x outloc_y CELL_DEFAULT =
       Grad_perp E mesh f outloc_x outloc_y (getLocation E f)
   \<and> Div_V3 E mesh v CELL_DEFAULT = Div_V3 E mesh v CELL_CENTRE
   \<and> fst (Div_V3 E mesh v CELL_DEFAULT) =
       flux_form_divergence (\<lambda>g. DDX_F3 E g CELL_CENTRE) (\<lambda>g. DDY_F3 E g CELL_CENTRE)
         (\<lambda>g. DDZ_F3 E g CELL_CENTRE) (J (coordinates_object mesh)) (Vector3D_toContravariant E v)
   \<and> Div_V3_F3 E mesh v f method CELL_DEFAULT = Div_V3_F3 E mesh v f method CELL_CENTRE
   \<and> Div_V3_F3_default E mesh v f = Div_V3_F3 E mesh v f DIFF_DEFAULT CELL_CENTRE
   \<and> fst (Grad_F3 E f outloc_x outloc_y outloc_z) =
       \<lparr>x = DDX_F3 E f (if outloc_x = CELL_DEFAULT then getLocation E f else outloc_x),
        y = DDY_F3 E f (if outloc_y = CELL_DEFAULT then getLocation E f else outloc_y),
        z = DDZ_F3 E f (if outloc_z = CELL_DEFAULT then getLocation E f else outloc_z),
        covariant = True\<rparr>
   \<and> fst (Grad_perp E mesh f CELL_DEFAULT outloc_y CELL_DEFAULT) =
       \<lparr>x = DDX_F3 E f (getLocation E f)
              - ((1 / (J (coordinates_object mesh) * Bxy (coordinates_object mesh)))
                  * (1 / (J (coordinates_object mesh) * Bxy (coordinates_object mesh)))
                  * g_12 (coordinates_object mesh))
                * DDY_F3 E f (getLocation E f),
        y = 0,
        z = DDZ_F3 E f (getLocation E f)
              - ((1 / (J (coordinates_object mesh) * Bxy (coordinates_object mesh)))
                  * (1 / (J (coordinates_object mesh) * Bxy (coordinates_object mesh)))
                  * g_23 (coordinates_object mesh))
                * DDY_F3 E f (getLocation E f),
        covariant = True\<rparr>
   \<and> fst (Div_V3 E mesh v CELL_DEFAULT) =
       (DDX_F3 E (J (coordinates_object mesh) * x (Vector3D_toContravariant E v)) CELL_CENTRE
        + DDY_F3 E (J (coordinates_object mesh) * y (Vector3D_toContravariant E v)) CELL_CENTRE
        + DDZ_F3 E (J (coordinates_object mesh) * z (Vector3D_toContravariant E v)) CELL_CENTRE)
       / J (coordinates_object mesh)
   \<and> fst (Div_V3_F3 E mesh v f method CELL_DEFAULT) =
       (FDDX_F3 E (J (coordinates_object mesh) * x (Vector3D_toContravariant E v)) f method
          CELL_CENTRE
        + FDDY_F3 E (J (coordinates_object mesh) * y (Vector3D_toContravariant E v)) f method
          CELL_CENTRE
        + FDDZ_F3 E (J (coordinates_object mesh) * z (Vector3D_toContravariant E v)) f method
          CELL_CENTRE)
       / J (coordinates_object mesh)
   \<and> fst (Div_V3_F3_default E mesh v f) =
       (FDDX_F3 E (J (coordinates_object mesh) * x (Vector3D_toContravariant E v)) f DIFF_DEFAULT
          CELL_CENTRE
        + FDDY_F3 E (J (coordinates_object mesh) * y (Vector3D_toContravariant E v)) f DIFF_DEFAULT
          CELL_CENTRE
        + FDDZ_F3 E (J (coordinates_object mesh) * z (Vector3D_toContravariant E v)) f DIFF_DEFAULT
          CELL_CENTRE)
       / J (coordinates_object mesh)
   \<and> fst (Div_V3_F3_loc_method E mesh v f CELL_DEFAULT method) =
       (FDDX_F3 E (J (coordinates_object mesh) * x (Vector3D_toContravariant E v)) f method
          CELL_CENTRE
        + FDDY_F3 E (J (coordinates_object mesh) * y (Vector3D_toContravariant E v)) f method
          CELL_CENTRE
        + FDDZ_F3 E (J (coordinates_object mesh) * z (Vector3D_toContravariant E v)) f method
          CELL_CENTRE)
       / J (coordinates_object mesh)
   \<and> fst (Curl_V3 E mesh v CELL_DEFAULT CELL_DEFAULT CELL_DEFAULT) =
       (let metric = coordinates_object mesh;
            vco = Vector3D_toCovariant E v;
            curl_z = (DDX_F3 E (y vco) CELL_DEFAULT - DDY_F3 E (x vco) CELL_DEFAULT) / J metric
        in \<lparr>x = (DDY_F3 E (z vco) CELL_DEFAULT - DDZ_F3 E (y vco) CELL_DEFAULT) / J metric,
            y = (DDZ_F3 E (x vco) CELL_DEFAULT - DDX_F3 E (z vco) CELL_DEFAULT) / J metric,
            z = (if ShiftXderivs mesh then curl_z - (ShiftTorsion metric * z vco) / J metric
                 else curl_z),
            covariant = False\<rparr>)
   \<and> fst (Curl_V3_loc E mesh v CELL_DEFAULT) =
       fst (Curl_V3 E mesh v CELL_DEFAULT CELL_DEFAULT CELL_DEFAULT)
   \<and> fst (Grad_F2 E f outloc) =
       \<lparr>x = DDX_F2 E f, y = DDY_F2 E f, z = DDZ_F2 E f, covariant = True\<rparr>
   \<and> fst (Div_V2 E mesh v outloc) =
       (DDX_F2 E (J (coordinates_object mesh) * x (Vector2D_toContravariant E v))
        + DDY_F2 E (J (coordinates_object mesh) * y (Vector2D_toContravariant E v))
        + DDZ_F2 E (J (coordinates_object mesh) * z (Vector2D_toContravariant E v)))
       / J (coordinates_object mesh)
   \<and> fst (Curl_V2 E mesh v outloc) =
       (let metric = coordinates_object mesh;
            vco = Vector2D_toCovariant E v;
            curl_z = (DDX_F2 E (y vco) - DDY_F2 E (x vco)) / J metric
        in \<lparr>x = (DDY_F2 E (z vco) - DDZ_F2 E (y vco)) / J metric,
            y = (DDZ_F2 E (x vco) - DDX_F2 E (z vco)) / J metric,
            z = (if ShiftXderivs mesh then curl_z - (ShiftTorsion metric * z vco) / J metric
                 else curl_z),
            covariant = False\<rparr>)"
  by (simp add: Grad_F2_def Grad_F3_def Grad_F3_loc_def Grad_perp_def Div_V2_def Div_V3_def
        Div_V3_F3_def Div_V3_F3_default_def Div_V3_F3_loc_method_def Curl_V2_def Curl_V3_def
        Curl_V3_loc_def flux_form_divergence_def Let_def)

text \<open>
  C1, as stated, fails for \<^verbatim>\<open>Div\<close> on a \<^verbatim>\<open>Vector3D\<close>. For a contravariant vector \<open>v\<close>
  whose three components are at \<^verbatim>\<open>CELL_XLOW\<close>, the divergence with no output location
  asks for its three derivatives at \<^verbatim>\<open>CELL_CENTRE\<close>; its value is at \<^verbatim>\<open>CELL_CENTRE\<close>,
  not at the location of \<open>v\<close>, and it is not the value of the call with the location
  of \<open>v\<close>.
\<close>

theorem Div_default_location_counterexample:
  "getLocation sym_extern (x (sym_vector ''v'' CELL_XLOW False)) = CELL_XLOW
   \<and> getLocation sym_extern (y (sym_vector ''v'' CELL_XLOW False)) = CELL_XLOW
   \<and> getLocation sym_extern (z (sym_vector ''v'' CELL_XLOW False)) = CELL_XLOW
   \<and> requested_locations
       (fst (Div_V3 sym_extern (sym_mesh False) (sym_vector ''v'' CELL_XLOW False) CELL_DEFAULT)) =
       [CELL_CENTRE, CELL_CENTRE, CELL_CENTRE]
   \<and> getLocation sym_extern
       (fst (Div_V3 sym_extern (sym_mesh False) (sym_vector ''v'' CELL_XLOW False) CELL_DEFAULT)) =
       CELL_CENTRE
   \<and> fst (Div_V3 sym_extern (sym_mesh False) (sym_vector ''v'' CELL_XLOW False) CELL_DEFAULT) \<noteq>
     fst (Div_V3 sym_extern (sym_mesh False) (sym_vector ''v'' CELL_XLOW False) CELL_XLOW)"
  by (simp add: Div_V3_def sym_extern_def sym_mesh_def sym_metric_def sym_vector_def
        sym_convert_def sym_arith Let_def)

text \<open>
  The body shared by the four overloads of \<^verbatim>\<open>V_dot_Grad\<close> for a vector target computes
  the index formula of the specification on the converted velocity.
\<close>

lemma V_dot_Grad_vector_advected:
  "fst (V_dot_Grad_vector VDDX VDDY VDDZ new toContravariant mesh v a) =
     advected_vector VDDX VDDY VDDZ (coordinates_object mesh) (toContravariant v) a"
  by (simp add: V_dot_Grad_vector_def advected_vector_def covariant_target_component_def
        contravariant_target_component_def lower_index_contraction_def
        upper_index_contraction_def advection_def Let_def)

text \<open>
  C2. For a vector target \<open>a\<close>, \<^verbatim>\<open>V_dot_Grad\<close> chooses its branch by the flag of \<open>a\<close>
  alone: for a covariant \<open>a\<close> the corrections are subtracted and use the lower-index
  contraction, for a contravariant \<open>a\<close> they are added and use the upper-index
  contraction, and the result has the kind of \<open>a\<close>. The velocity enters only through
  its contravariant form, in both branches: two velocities with the same contravariant
  form give the same result, whatever their own flags.
\<close>

theorem V_dot_Grad_branch_by_target:
  "fst (V_dot_Grad_V2_V2 E mesh v a) =
     advected_vector (VDDX_F2 E) (VDDY_F2 E) (VDDZ_F2 E) (coordinates_object mesh)
       (Vector2D_toContravariant E v) a
   \<and> fst (V_dot_Grad_V2_V3 E mesh v a) =
     advected_vector (VDDX_F3 E) (VDDY_F3 E) (VDDZ_F3 E) (coordinates_object mesh)
       (Vector2D_toContravariant E v) a
   \<and> fst (V_dot_Grad_V3_V2 E mesh v a) =
     advected_vector (VDDX_F3 E) (VDDY_F3 E) (VDDZ_F3 E) (coordinates_object mesh)
       (Vector3D_toContravariant E v) a
   \<and> fst (V_dot_Grad_V3_V3 E mesh v a) =
     advected_vector (VDDX_F3 E) (VDDY_F3 E) (VDDZ_F3 E) (coordinates_object mesh)
       (Vector3D_toContravariant E v) a
   \<and> covariant (fst (V_dot_Grad_V2_V2 E mesh v a)) = covariant a
   \<and> covariant (fst (V_dot_Grad_V3_V3 E mesh v a)) = covariant a
   \<and> (Vector3D_toContravariant E v = Vector3D_toContravariant E v' \<longrightarrow>
        fst (V_dot_Grad_V3_V3 E mesh v a) = fst (V_dot_Grad_V3_V3 E mesh v' a))
   \<and> (Vector2D_toContravariant E v = Vector2D_toContravariant E v' \<longrightarrow>
        fst (V_dot_Grad_V2_V2 E mesh v a) = fst (V_dot_Grad_V2_V2 E mesh v' a))"
  by (simp add: V_dot_Grad_V2_V2_def V_dot_Grad_V2_V3_def V_dot_Grad_V3_V2_def
        V_dot_Grad_V3_V3_def V_dot_Grad_vector_advected)
     (simp add: advected_vector_def)

theorem V_dot_Grad_branch_by_target_witness:
  "Vector3D_toContravariant (sym_extern) (sym_vector ''v'' CELL_CENTRE True) =
     Vector3D_toContravariant (sym_extern)
       (sym_convert ''toContravariant'' False (sym_vector ''v'' CELL_CENTRE True))
   \<and> Vector2D_toContravariant (sym_extern) (sym_vector ''v'' CELL_CENTRE True) =
     Vector2D_toContravariant (sym_extern)
       (sym_convert ''toContravariant'' False (sym_vector ''v'' CELL_CENTRE True))
   \<and> covariant (sym_vector ''v'' CELL_CENTRE True) \<noteq>
       covariant (sym_convert ''toContravariant'' False (sym_vector ''v'' CELL_CENTRE True))
   \<and> fst (V_dot_Grad_V3_V3 (sym_extern) (sym_mesh False) (sym_vector ''v'' CELL_CENTRE True)
          (sym_vector ''a'' CELL_CENTRE True)) =
     fst (V_dot_Grad_V3_V3 (sym_extern) (sym_mesh False)
          (sym_convert ''toContravariant'' False (sym_vector ''v'' CELL_CENTRE True)) (sym_vector ''a'' CELL_CENTRE True))
   \<and> fst (V_dot_Grad_V2_V2 (sym_extern) (sym_mesh False) (sym_vector ''v'' CELL_CENTRE True)
          (sym_vector ''a'' CELL_CENTRE True)) =
     fst (V_dot_Grad_V2_V2 (sym_extern) (sym_mesh False)
          (sym_convert ''toContravariant'' False (sym_vector ''v'' CELL_CENTRE True)) (sym_vector ''a'' CELL_CENTRE True))"
proof -
  have same3: "Vector3D_toContravariant (sym_extern) (sym_vector ''v'' CELL_CENTRE True) =
     Vector3D_toContravariant (sym_extern)
       (sym_convert ''toContravariant'' False (sym_vector ''v'' CELL_CENTRE True))"
    by (simp add: sym_extern_def sym_convert_def sym_vector_def)
  have same2: "Vector2D_toContravariant (sym_extern) (sym_vector ''v'' CELL_CENTRE True) =
     Vector2D_toContravariant (sym_extern)
       (sym_convert ''toContravariant'' False (sym_vector ''v'' CELL_CENTRE True))"
    by (simp add: sym_extern_def sym_convert_def sym_vector_def)
  have kinds: "covariant (sym_vector ''v'' CELL_CENTRE True) \<noteq>
       covariant (sym_convert ''toContravariant'' False (sym_vector ''v'' CELL_CENTRE True))"
    by (simp add: sym_convert_def sym_vector_def)
  from same3 same2 kinds
    V_dot_Grad_branch_by_target [of "sym_extern" "sym_mesh False"
      "sym_vector ''v'' CELL_CENTRE True" "sym_vector ''a'' CELL_CENTRE True"
      "sym_convert ''toContravariant'' False (sym_vector ''v'' CELL_CENTRE True)"]
  show ?thesis by blast
qed

text \<open>
  C3. \<^verbatim>\<open>Curl\<close> converts \<open>v\<close> to covariant components, takes for each contravariant
  component of the result the antisymmetric difference of the two cross-axis
  derivatives over J, and subtracts the shift-torsion correction
  \<open>ShiftTorsion * v_z / J\<close> from the z component exactly when \<^verbatim>\<open>mesh->ShiftXderivs\<close> is
  set; when it is not set the result is the computation without the torsion term. The
  result is contravariant.
\<close>

theorem Curl_antisymmetric_with_conditional_torsion:
  "fst (Curl_V3 E mesh v outloc_x outloc_y outloc_z) =
     (let metric = coordinates_object mesh;
          vco = Vector3D_toCovariant E v;
          curl = antisymmetric_curl (DDX_F3 E) (DDY_F3 E) (DDZ_F3 E) (J metric) vco
                   outloc_x outloc_y outloc_z
      in if ShiftXderivs mesh then curl\<lparr>z := z curl - shift_torsion_correction metric vco\<rparr>
         else curl)
   \<and> fst (Curl_V2 E mesh v outloc) =
     (let metric = coordinates_object mesh;
          vco = Vector2D_toCovariant E v;
          curl = antisymmetric_curl (\<lambda>g l. DDX_F2 E g) (\<lambda>g l. DDY_F2 E g) (\<lambda>g l. DDZ_F2 E g)
                   (J metric) vco outloc outloc outloc
      in if ShiftXderivs mesh then curl\<lparr>z := z curl - shift_torsion_correction metric vco\<rparr>
         else curl)"
  by (simp add: Curl_V3_def Curl_V2_def antisymmetric_curl_def shift_torsion_correction_def Let_def)

text \<open>
  C4. \<^verbatim>\<open>Div\<close> of a vector is the flux form on the contravariant components of \<open>v\<close>: the
  sum of the derivatives along X, Y and Z of J times the component of that axis,
  divided by J. Its value is a scalar field (the type \<open>'f\<close>).
\<close>

theorem Div_is_flux_form:
  "fst (Div_V2 E mesh v outloc) =
     flux_form_divergence (DDX_F2 E) (DDY_F2 E) (DDZ_F2 E) (J (coordinates_object mesh))
       (Vector2D_toContravariant E v)
   \<and> fst (Div_V3 E mesh v outloc) =
     (let loc = (if outloc = CELL_DEFAULT then CELL_CENTRE else outloc)
      in flux_form_divergence (\<lambda>g. DDX_F3 E g loc) (\<lambda>g. DDY_F3 E g loc) (\<lambda>g. DDZ_F3 E g loc)
           (J (coordinates_object mesh)) (Vector3D_toContravariant E v))"
  by (simp add: Div_V2_def Div_V3_def flux_form_divergence_def Let_def)

text \<open>
  C5. The two overloads of the flux divergence on a \<^verbatim>\<open>Vector3D\<close> agree: the call with
  (outloc, method) returns what the call with (method, outloc) returns.
\<close>

theorem Div_flux_overloads_agree:
  "Div_V3_F3_loc_method E mesh v f outloc method = Div_V3_F3 E mesh v f method outloc"
  by (simp add: Div_V3_F3_loc_method_def)

text \<open>
  C7. \<^verbatim>\<open>Grad_perp\<close> returns a covariant vector whose y component is zero, whose x
  component is DDX(f) minus (1/(J Bxy)) squared times g_12 times DDY(f), and whose z
  component is DDZ(f) minus (1/(J Bxy)) squared times g_23 times DDY(f); the
  derivatives of the x component are taken at the output location of x and those of
  the z component at the output location of z.
\<close>

theorem Grad_perp_components:
  "fst (Grad_perp E mesh f outloc_x outloc_y outloc_z) =
     (let metric = coordinates_object mesh;
          loc_x = (if outloc_x = CELL_DEFAULT then getLocation E f else outloc_x);
          loc_z = (if outloc_z = CELL_DEFAULT then getLocation E f else outloc_z)
      in \<lparr>x = DDX_F3 E f loc_x - (parallel_weight metric * g_12 metric) * DDY_F3 E f loc_x,
          y = 0,
          z = DDZ_F3 E f loc_z - (parallel_weight metric * g_23 metric) * DDY_F3 E f loc_z,
          covariant = True\<rparr>)"
  by (simp add: Grad_perp_def parallel_weight_def Let_def)

text \<open>
  C8. No operator changes an operand that it takes by const reference: when the call
  returns, every field and vector operand, with its components and its flag, is the
  one that was passed. The conversions act on the local copies \<open>vcn\<close> and \<open>vco\<close>.
\<close>

theorem operators_leave_operands_unchanged:
  "snd (Grad_F2 E f outloc) = f
   \<and> snd (Grad_F3 E f outloc_x outloc_y outloc_z) = f
   \<and> snd (Grad_F3_loc E f outloc) = f
   \<and> snd (Grad_perp E mesh f outloc_x outloc_y outloc_z) = f
   \<and> snd (Div_V2 E mesh v outloc) = v
   \<and> snd (Div_V3 E mesh v outloc) = v
   \<and> snd (Div_V2_F2 E mesh v f) = (v, f)
   \<and> snd (Div_V3_F3 E mesh v f method outloc) = (v, f)
   \<and> snd (Div_V3_F3_loc_method E mesh v f outloc method) = (v, f)
   \<and> snd (Div_V3_F3_default E mesh v f) = (v, f)
   \<and> snd (Curl_V2 E mesh v outloc) = v
   \<and> snd (Curl_V3 E mesh v outloc_x outloc_y outloc_z) = v
   \<and> snd (Curl_V3_loc E mesh v outloc) = v
   \<and> snd (V_dot_Grad_V2_F2 E v f) = (v, f)
   \<and> snd (V_dot_Grad_V2_F3 E v f) = (v, f)
   \<and> snd (V_dot_Grad_V3_F2 E v f) = (v, f)
   \<and> snd (V_dot_Grad_V3_F3 E v f) = (v, f)
   \<and> snd (V_dot_Grad_V2_V2 E mesh v a) = (v, a)
   \<and> snd (V_dot_Grad_V2_V3 E mesh v a) = (v, a)
   \<and> snd (V_dot_Grad_V3_V2 E mesh v a) = (v, a)
   \<and> snd (V_dot_Grad_V3_V3 E mesh v a) = (v, a)"
  by (simp add: Grad_F2_def Grad_F3_def Grad_F3_loc_def Grad_perp_def Div_V2_def Div_V3_def
        Div_V2_F2_def Div_V3_F3_def Div_V3_F3_loc_method_def Div_V3_F3_default_def
        Curl_V2_def Curl_V3_def Curl_V3_loc_def V_dot_Grad_V2_F2_def V_dot_Grad_V2_F3_def
        V_dot_Grad_V3_F2_def V_dot_Grad_V3_F3_def V_dot_Grad_V2_V2_def V_dot_Grad_V2_V3_def
        V_dot_Grad_V3_V2_def V_dot_Grad_V3_V3_def V_dot_Grad_vector_def Let_def)

text \<open>
  An example in the symbolic algebra: the divergence of a covariant vector works on
  converted components, and the vector that was passed is still covariant afterwards.
\<close>

lemma Div_converts_a_copy_example:
  "Vector3D_toContravariant sym_extern (sym_vector ''v'' CELL_CENTRE True) \<noteq>
     sym_vector ''v'' CELL_CENTRE True
   \<and> fst (Div_V3 sym_extern (sym_mesh False) (sym_vector ''v'' CELL_CENTRE True) CELL_CENTRE) =
     fst (Div_V3 sym_extern (sym_mesh False)
       (Vector3D_toContravariant sym_extern (sym_vector ''v'' CELL_CENTRE True)) CELL_CENTRE)
   \<and> snd (Div_V3 sym_extern (sym_mesh False) (sym_vector ''v'' CELL_CENTRE True) CELL_CENTRE) =
     sym_vector ''v'' CELL_CENTRE True"
  by (simp add: Div_V3_def sym_extern_def sym_vector_def sym_convert_def Let_def)

text \<open>
  An example in the symbolic algebra: with \<^verbatim>\<open>ShiftXderivs\<close> set, the z component of the
  curl is the z component computed without it, minus \<open>ShiftTorsion * v_z / J\<close>; the
  other components are the same.
\<close>

lemma Curl_torsion_example:
  "z (fst (Curl_V3 sym_extern (sym_mesh True) (sym_vector ''v'' CELL_CENTRE True)
        CELL_CENTRE CELL_CENTRE CELL_CENTRE)) =
     SSub (z (fst (Curl_V3 sym_extern (sym_mesh False) (sym_vector ''v'' CELL_CENTRE True)
        CELL_CENTRE CELL_CENTRE CELL_CENTRE)))
       (SDiv (SMul (SGiven ''ShiftTorsion'' CELL_CENTRE) (SGiven ''v.z'' CELL_CENTRE))
          (SGiven ''J'' CELL_CENTRE))
   \<and> x (fst (Curl_V3 sym_extern (sym_mesh True) (sym_vector ''v'' CELL_CENTRE True)
        CELL_CENTRE CELL_CENTRE CELL_CENTRE)) =
     x (fst (Curl_V3 sym_extern (sym_mesh False) (sym_vector ''v'' CELL_CENTRE True)
        CELL_CENTRE CELL_CENTRE CELL_CENTRE))
   \<and> y (fst (Curl_V3 sym_extern (sym_mesh True) (sym_vector ''v'' CELL_CENTRE True)
        CELL_CENTRE CELL_CENTRE CELL_CENTRE)) =
     y (fst (Curl_V3 sym_extern (sym_mesh False) (sym_vector ''v'' CELL_CENTRE True)
        CELL_CENTRE CELL_CENTRE CELL_CENTRE))"
  by (simp add: Curl_V3_def sym_extern_def sym_mesh_def sym_metric_def sym_vector_def
        sym_convert_def sym_arith Let_def)

text \<open>Once \<^verbatim>\<open>coords\<close> is set, the accessor returns it and changes nothing.\<close>

lemma coordinates_cached:
  "coords m \<noteq> None \<Longrightarrow> coordinates dflt m = (coords m, m)"
  by (simp add: coordinates_def)

lemma coordinates_calls_cached:
  "coords m \<noteq> None \<Longrightarrow> coordinates_calls n dflt m = (replicate n (coords m), m)"
  by (induction n) (simp_all add: coordinates_cached)

lemma coordinates_sets_coords:
  "coords (snd (coordinates dflt m)) = fst (coordinates dflt m)
   \<and> fst (coordinates dflt m) \<noteq> None"
  by (simp add: coordinates_def createDefaultCoordinates_def)

text \<open>
  C9. \<^verbatim>\<open>Mesh::coordinates()\<close> never returns the null pointer, and the member \<^verbatim>\<open>coords\<close>
  holds the returned pointer afterwards. If no object was set, the call allocates one
  default object, at a new address, and stores that address; if one was set, the call
  returns it and changes nothing. Any number of further calls return the same pointer
  and leave the mesh and the list of allocated objects as they are, so that at most
  one object is ever created for a mesh.
\<close>

theorem coordinates_never_null_created_once:
  "fst (coordinates dflt m) \<noteq> None
   \<and> coords (snd (coordinates dflt m)) = fst (coordinates dflt m)
   \<and> (coords m = None \<longrightarrow>
        fst (coordinates dflt m) = Some (length (allocated m))
        \<and> allocated (snd (coordinates dflt m)) = allocated m @ [dflt])
   \<and> (coords m \<noteq> None \<longrightarrow> coordinates dflt m = (coords m, m))
   \<and> coordinates_calls n dflt (snd (coordinates dflt m)) =
       (replicate n (fst (coordinates dflt m)), snd (coordinates dflt m))"
proof -
  have set: "coords (snd (coordinates dflt m)) = fst (coordinates dflt m)"
    and nonnull: "fst (coordinates dflt m) \<noteq> None"
    using coordinates_sets_coords [of dflt m] by simp_all
  have first: "coords m = None \<longrightarrow>
        fst (coordinates dflt m) = Some (length (allocated m))
        \<and> allocated (snd (coordinates dflt m)) = allocated m @ [dflt]"
    by (simp add: coordinates_def createDefaultCoordinates_def)
  have cached: "coords m \<noteq> None \<longrightarrow> coordinates dflt m = (coords m, m)"
    by (simp add: coordinates_cached)
  have later: "coordinates_calls n dflt (snd (coordinates dflt m)) =
       (replicate n (fst (coordinates dflt m)), snd (coordinates dflt m))"
    using coordinates_calls_cached [of "snd (coordinates dflt m)" n dflt] set nonnull by simp
  from nonnull set first cached later show ?thesis by blast
qed

theorem coordinates_never_null_created_once_witness:
  "coords \<lparr>coords = None, allocated = ([]::nat list)\<rparr> = None
   \<and> coordinates (7::nat) \<lparr>coords = None, allocated = []\<rparr> =
       (Some 0, \<lparr>coords = Some 0, allocated = [7]\<rparr>)
   \<and> coordinates_calls 3 (7::nat) \<lparr>coords = Some 0, allocated = [7]\<rparr> =
       ([Some 0, Some 0, Some 0], \<lparr>coords = Some 0, allocated = [7]\<rparr>)
   \<and> coords \<lparr>coords = Some 0, allocated = [7::nat]\<rparr> \<noteq> None
   \<and> coordinates (7::nat) \<lparr>coords = Some 0, allocated = [7]\<rparr> =
       (Some 0, \<lparr>coords = Some 0, allocated = [7]\<rparr>)"
proof -
  have eval: "coordinates (7::nat) \<lparr>coords = None, allocated = []\<rparr> =
       (Some 0, \<lparr>coords = Some 0, allocated = [7]\<rparr>)"
    by (simp add: coordinates_def createDefaultCoordinates_def)
  have unset: "coords \<lparr>coords = None, allocated = ([]::nat list)\<rparr> = None" by simp
  have is_set: "coords \<lparr>coords = Some 0, allocated = [7::nat]\<rparr> \<noteq> None" by simp
  from coordinates_never_null_created_once [of "7::nat" "\<lparr>coords = None, allocated = []\<rparr>" 3]
  have calls: "coordinates_calls 3 (7::nat) \<lparr>coords = Some 0, allocated = [7]\<rparr> =
       ([Some 0, Some 0, Some 0], \<lparr>coords = Some 0, allocated = [7]\<rparr>)"
    by (simp add: eval numeral_3_eq_3)
  from coordinates_never_null_created_once [of "7::nat" "\<lparr>coords = Some 0, allocated = [7]\<rparr>" 0]
    is_set
  have again: "coordinates (7::nat) \<lparr>coords = Some 0, allocated = [7]\<rparr> =
       (Some 0, \<lparr>coords = Some 0, allocated = [7]\<rparr>)"
    by simp
  from unset eval calls is_set again show ?thesis by blast
qed

text \<open>
  C10. \<^verbatim>\<open>Mesh::get\<close> on a \<^verbatim>\<open>Vector2D\<close> or \<^verbatim>\<open>Vector3D\<close> returns the status 0 for every
  source, variable and name, so that the status is the same for a source that holds
  the components and for one that does not; when none of the three components exists
  they all become the default zero and the status is still 0. The overloads for
  \<^verbatim>\<open>int\<close>, \<^verbatim>\<open>BoutReal\<close>, \<^verbatim>\<open>Field2D\<close> and \<^verbatim>\<open>Field3D\<close> return a non-zero status when the
  name is missing.
\<close>

theorem get_vector_status_always_zero:
  "fst (get_Vector2D source var name) = 0
   \<and> fst (get_Vector3D source var name) = 0
   \<and> fst (get_Vector2D source var name) = fst (get_Vector2D source' var name)
   \<and> fst (get_Vector3D source var name) = fst (get_Vector3D source' var name)
   \<and> (covariant var \<and> field2d_vars source (name @ ''_x'') = None
        \<and> field2d_vars source (name @ ''_y'') = None \<and> field2d_vars source (name @ ''_z'') = None
      \<longrightarrow> get_Vector2D source var name = (0, var\<lparr>x := 0, y := 0, z := 0\<rparr>))
   \<and> (\<not> covariant var \<and> field2d_vars source (name @ ''x'') = None
        \<and> field2d_vars source (name @ ''y'') = None \<and> field2d_vars source (name @ ''z'') = None
      \<longrightarrow> get_Vector2D source var name = (0, var\<lparr>x := 0, y := 0, z := 0\<rparr>))
   \<and> (covariant var \<and> field3d_vars source (name @ ''_x'') = None
        \<and> field3d_vars source (name @ ''_y'') = None \<and> field3d_vars source (name @ ''_z'') = None
      \<longrightarrow> get_Vector3D source var name = (0, var\<lparr>x := 0, y := 0, z := 0\<rparr>))
   \<and> (\<not> covariant var \<and> field3d_vars source (name @ ''x'') = None
        \<and> field3d_vars source (name @ ''y'') = None \<and> field3d_vars source (name @ ''z'') = None
      \<longrightarrow> get_Vector3D source var name = (0, var\<lparr>x := 0, y := 0, z := 0\<rparr>))
   \<and> (int_vars source name = None \<longrightarrow> fst (get_int source ival name) \<noteq> 0)
   \<and> (real_vars source name = None \<longrightarrow> fst (get_BoutReal source rval name) \<noteq> 0)
   \<and> (field2d_vars source name = None \<longrightarrow> fst (get_Field2D source fvar name def) \<noteq> 0)
   \<and> (field3d_vars source name = None \<longrightarrow> fst (get_Field3D source fvar name def) \<noteq> 0)"
  by (simp add: get_Vector2D_def get_Vector3D_def get_int_def get_BoutReal_def
        get_Field2D_def get_Field3D_def Let_def)

theorem get_vector_status_always_zero_witness:
  "field2d_vars (\<lparr>int_vars = Map.empty, real_vars = Map.empty, field2d_vars = Map.empty,
       field3d_vars = Map.empty\<rparr> :: (int, int) GridDataSource) (''B'' @ ''_x'') = None
   \<and> int_vars (\<lparr>int_vars = Map.empty, real_vars = Map.empty, field2d_vars = Map.empty,
       field3d_vars = Map.empty\<rparr> :: (int, int) GridDataSource) ''B'' = None
   \<and> get_Vector2D (\<lparr>int_vars = Map.empty, real_vars = Map.empty, field2d_vars = Map.empty,
       field3d_vars = Map.empty\<rparr> :: (int, int) GridDataSource)
       \<lparr>x = 1, y = 2, z = 3, covariant = True\<rparr> ''B'' =
       (0, \<lparr>x = 0, y = 0, z = 0, covariant = True\<rparr>)
   \<and> get_Vector2D (\<lparr>int_vars = Map.empty, real_vars = Map.empty, field2d_vars = Map.empty,
       field3d_vars = Map.empty\<rparr> :: (int, int) GridDataSource)
       \<lparr>x = 1, y = 2, z = 3, covariant = False\<rparr> ''B'' =
       (0, \<lparr>x = 0, y = 0, z = 0, covariant = False\<rparr>)
   \<and> get_Vector3D (\<lparr>int_vars = Map.empty, real_vars = Map.empty, field2d_vars = Map.empty,
       field3d_vars = Map.empty\<rparr> :: (int, int) GridDataSource)
       \<lparr>x = 1, y = 2, z = 3, covariant = True\<rparr> ''B'' =
       (0, \<lparr>x = 0, y = 0, z = 0, covariant = True\<rparr>)
   \<and> get_Vector3D (\<lparr>int_vars = Map.empty, real_vars = Map.empty, field2d_vars = Map.empty,
       field3d_vars = Map.empty\<rparr> :: (int, int) GridDataSource)
       \<lparr>x = 1, y = 2, z = 3, covariant = False\<rparr> ''B'' =
       (0, \<lparr>x = 0, y = 0, z = 0, covariant = False\<rparr>)
   \<and> fst (get_int (\<lparr>int_vars = Map.empty, real_vars = Map.empty, field2d_vars = Map.empty,
       field3d_vars = Map.empty\<rparr> :: (int, int) GridDataSource) 5 ''B'') \<noteq> 0
   \<and> fst (get_BoutReal (\<lparr>int_vars = Map.empty, real_vars = Map.empty, field2d_vars = Map.empty,
       field3d_vars = Map.empty\<rparr> :: (int, int) GridDataSource) 5 ''B'') \<noteq> 0
   \<and> fst (get_Field2D (\<lparr>int_vars = Map.empty, real_vars = Map.empty, field2d_vars = Map.empty,
       field3d_vars = Map.empty\<rparr> :: (int, int) GridDataSource) 5 ''B'' 0) \<noteq> 0
   \<and> fst (get_Field3D (\<lparr>int_vars = Map.empty, real_vars = Map.empty, field2d_vars = Map.empty,
       field3d_vars = Map.empty\<rparr> :: (int, int) GridDataSource) 5 ''B'' 0) \<noteq> 0"
  using
    get_vector_status_always_zero [of
      "\<lparr>int_vars = Map.empty, real_vars = Map.empty, field2d_vars = Map.empty,
        field3d_vars = Map.empty\<rparr> :: (int, int) GridDataSource"
      "\<lparr>x = 1, y = 2, z = 3, covariant = True\<rparr>" "''B''"
      "\<lparr>int_vars = Map.empty, real_vars = Map.empty, field2d_vars = Map.empty,
        field3d_vars = Map.empty\<rparr> :: (int, int) GridDataSource" 5 5 5 0]
    get_vector_status_always_zero [of
      "\<lparr>int_vars = Map.empty, real_vars = Map.empty, field2d_vars = Map.empty,
        field3d_vars = Map.empty\<rparr> :: (int, int) GridDataSource"
      "\<lparr>x = 1, y = 2, z = 3, covariant = False\<rparr>" "''B''"
      "\<lparr>int_vars = Map.empty, real_vars = Map.empty, field2d_vars = Map.empty,
        field3d_vars = Map.empty\<rparr> :: (int, int) GridDataSource" 5 5 5 0]
  by simp

end
